theory Spec2Isabelle
  imports Main
begin

section \<open>DockerManager (src/index.js): data model\<close>

text \<open>
  The class \<^verbatim>\<open>DockerManager\<close> sequences calls to a container engine (the dockerode
  client) and keeps two arrays of \<^verbatim>\<open>DockerImage\<close> objects. JavaScript objects and
  arrays are shared by reference: \<^verbatim>\<open>Array.prototype.includes\<close> compares objects by
  identity, \<^verbatim>\<open>push\<close> mutates an array in place, \<^verbatim>\<open>filter\<close> allocates a new
  array, and \<^verbatim>\<open>for ... of\<close> reads the array it was started on at every step. The
  model therefore keeps an explicit store: objects and arrays live at addresses, and the
  two fields of the manager hold addresses of arrays.
\<close>

type_synonym ref = nat
type_synonym addr = nat

text \<open>
  The typedef \<^verbatim>\<open>DockerImage\<close> (lines 3-13). \<^verbatim>\<open>containerName\<close> is optional:
  \<open>None\<close> is JavaScript's \<^verbatim>\<open>undefined\<close>. \<^verbatim>\<open>options\<close> is passed to the engine
  unread, so its type is a parameter.
\<close>

record 'o DockerImage =
  name :: string
  containerName :: "string option"
  options :: 'o

text \<open>
  What the engine client can throw or reject with. The manager never builds an error of
  its own: it logs with \<^verbatim>\<open>console.error\<close> and rethrows what it caught, so every
  \<^verbatim>\<open>try/catch\<close> of the source leaves results unchanged and console output is not part
  of the state.
\<close>

datatype error =
  EngineUnavailable | PullFailed | CreateFailed | StartFailed | StopFailed | RemoveFailed
  | NotFound

text \<open>
  The entries of \<^verbatim>\<open>docker.listImages()\<close> and \<^verbatim>\<open>docker.listContainers()\<close>, with the
  one field the manager reads of each. \<^verbatim>\<open>RepoTags\<close> can be \<^verbatim>\<open>null\<close> (line 57 guards
  for it). A \<^verbatim>\<open>Container\<close> is dockerode's handle: it only carries the id it was made with.
\<close>

record ImageInfo =
  RepoTags :: "string list option"

record ContainerInfo =
  Names :: "string list"

datatype Container = Container "string option"

text \<open>
  \<^verbatim>\<open>docker.pull(name, callback)\<close> hands the callback an error or a stream. The stream
  either emits \<^verbatim>\<open>'end'\<close> or never does (it breaks with an \<^verbatim>\<open>'error'\<close> event, for which
  the source registers no handler).
\<close>

datatype pull_result = PullError error | StreamEnd | StreamNoEnd

text \<open>
  The engine is not part of the repository: it is a parameter. A value of type
  \<open>('e, 'o) Docker\<close> gives, for every request, the answer and the next state of the
  engine; \<open>'e\<close> is the engine's state.
\<close>

record ('e, 'o) Docker =
  listImages :: "'e \<Rightarrow> (error + ImageInfo list) \<times> 'e"
  pull :: "string \<Rightarrow> 'e \<Rightarrow> pull_result \<times> 'e"
  listContainers :: "'e \<Rightarrow> (error + ContainerInfo list) \<times> 'e"
  createContainer :: "string \<Rightarrow> string option \<Rightarrow> 'o \<Rightarrow> 'e \<Rightarrow> (error + Container) \<times> 'e"
  container_start :: "Container \<Rightarrow> 'e \<Rightarrow> (error + unit) \<times> 'e"
  container_stop :: "Container \<Rightarrow> 'e \<Rightarrow> (error + unit) \<times> 'e"
  container_remove :: "Container \<Rightarrow> 'e \<Rightarrow> (error + unit) \<times> 'e"
  container_inspect :: "Container \<Rightarrow> 'e \<Rightarrow> (error + string) \<times> 'e"

text \<open>The requests sent to the engine, recorded in the order they are issued.\<close>

datatype call =
  ListImages | Pull string | ListContainers
  | CreateContainer string "string option"
  | Start Container | Stop Container | Remove Container | Inspect Container

text \<open>
  The state: the engine, the store of \<^verbatim>\<open>DockerImage\<close> objects, the store of arrays with
  the next unused address, the two fields \<^verbatim>\<open>_runningImageList\<close> and
  \<^verbatim>\<open>_stoppingImageList\<close> of the manager (addresses of arrays), and the requests issued
  so far.
\<close>

record ('e, 'o) state =
  docker :: 'e
  objects :: "ref \<Rightarrow> 'o DockerImage"
  arrays :: "addr \<Rightarrow> ref list"
  fresh :: addr
  runningImageList :: addr
  stoppingImageList :: addr
  calls :: "call list"

text \<open>The constructor (lines 21-27): two new empty arrays.\<close>

definition constructor :: "'e \<Rightarrow> (ref \<Rightarrow> 'o DockerImage) \<Rightarrow> ('e, 'o) state" where
  "constructor e objs =
     \<lparr>docker = e, objects = objs, arrays = (\<lambda>_. []), fresh = 2,
      runningImageList = 0, stoppingImageList = 1, calls = []\<rparr>"

section \<open>Name derivation\<close>

text \<open>
  \<^verbatim>\<open>String.prototype.replace\<close> with a string pattern replaces the first occurrence of
  the pattern only.
\<close>

fun replace_first :: "char \<Rightarrow> char \<Rightarrow> string \<Rightarrow> string" where
  "replace_first c d [] = []"
| "replace_first c d (x # xs) = (if x = c then d # xs else x # replace_first c d xs)"

text \<open>\<^verbatim>\<open>_formatContainerName\<close> (lines 193-195).\<close>

definition formatContainerName :: "string \<Rightarrow> string" where
  "formatContainerName imageName =
     replace_first (CHR '':'') (CHR ''-'') (imageName @ ''-container'')"

section \<open>Engine requests and array operations\<close>

text \<open>A template literal prints \<^verbatim>\<open>undefined\<close> for a missing value.\<close>

definition interpolate :: "string option \<Rightarrow> string" where
  "interpolate v = (case v of None \<Rightarrow> ''undefined'' | Some x \<Rightarrow> x)"

text \<open>
  One awaited request each: the engine answers and moves to its next state, and the
  request is recorded. \<^verbatim>\<open>docker.getContainer\<close> sends nothing: it builds a handle.

  The request of \<^verbatim>\<open>createContainer\<close> is the object
  \<^verbatim>\<open>{Image: Image.name, name: Image.containerName, ...Image.options}\<close>: the keys of
  \<^verbatim>\<open>options\<close> come last, so an \<^verbatim>\<open>options\<close> object that has a key \<^verbatim>\<open>Image\<close> or
  \<^verbatim>\<open>name\<close> replaces what the manager wrote. The engine is handed all three parts and
  decides what they mean; the entry recorded holds the two values the manager wrote,
  not what the engine made of them.
\<close>

definition await_listImages ::
  "('e, 'o) Docker \<Rightarrow> ('e, 'o) state \<Rightarrow> (error + ImageInfo list) \<times> ('e, 'o) state" where
  "await_listImages D s =
     (case listImages D (docker s) of
        (r, e) \<Rightarrow> (r, s\<lparr>docker := e, calls := calls s @ [ListImages]\<rparr>))"

definition await_pull ::
  "('e, 'o) Docker \<Rightarrow> string \<Rightarrow> ('e, 'o) state \<Rightarrow> pull_result \<times> ('e, 'o) state" where
  "await_pull D nm s =
     (case pull D nm (docker s) of
        (r, e) \<Rightarrow> (r, s\<lparr>docker := e, calls := calls s @ [Pull nm]\<rparr>))"

definition await_listContainers ::
  "('e, 'o) Docker \<Rightarrow> ('e, 'o) state \<Rightarrow> (error + ContainerInfo list) \<times> ('e, 'o) state" where
  "await_listContainers D s =
     (case listContainers D (docker s) of
        (r, e) \<Rightarrow> (r, s\<lparr>docker := e, calls := calls s @ [ListContainers]\<rparr>))"

definition await_createContainer ::
  "('e, 'o) Docker \<Rightarrow> string \<Rightarrow> string option \<Rightarrow> 'o \<Rightarrow> ('e, 'o) state
   \<Rightarrow> (error + Container) \<times> ('e, 'o) state" where
  "await_createContainer D imageName nm opts s =
     (case createContainer D imageName nm opts (docker s) of
        (r, e) \<Rightarrow> (r, s\<lparr>docker := e, calls := calls s @ [CreateContainer imageName nm]\<rparr>))"

definition await_start ::
  "('e, 'o) Docker \<Rightarrow> Container \<Rightarrow> ('e, 'o) state \<Rightarrow> (error + unit) \<times> ('e, 'o) state" where
  "await_start D c s =
     (case container_start D c (docker s) of
        (r, e) \<Rightarrow> (r, s\<lparr>docker := e, calls := calls s @ [Start c]\<rparr>))"

definition await_stop ::
  "('e, 'o) Docker \<Rightarrow> Container \<Rightarrow> ('e, 'o) state \<Rightarrow> (error + unit) \<times> ('e, 'o) state" where
  "await_stop D c s =
     (case container_stop D c (docker s) of
        (r, e) \<Rightarrow> (r, s\<lparr>docker := e, calls := calls s @ [Stop c]\<rparr>))"

definition await_remove ::
  "('e, 'o) Docker \<Rightarrow> Container \<Rightarrow> ('e, 'o) state \<Rightarrow> (error + unit) \<times> ('e, 'o) state" where
  "await_remove D c s =
     (case container_remove D c (docker s) of
        (r, e) \<Rightarrow> (r, s\<lparr>docker := e, calls := calls s @ [Remove c]\<rparr>))"

definition await_inspect ::
  "('e, 'o) Docker \<Rightarrow> Container \<Rightarrow> ('e, 'o) state \<Rightarrow> (error + string) \<times> ('e, 'o) state" where
  "await_inspect D c s =
     (case container_inspect D c (docker s) of
        (r, e) \<Rightarrow> (r, s\<lparr>docker := e, calls := calls s @ [Inspect c]\<rparr>))"

definition getContainer :: "string option \<Rightarrow> Container" where
  "getContainer ident = Container ident"

text \<open>\<^verbatim>\<open>array.push(x)\<close> changes the array where it is.\<close>

definition push :: "addr \<Rightarrow> ref \<Rightarrow> ('e, 'o) state \<Rightarrow> ('e, 'o) state" where
  "push a x s = s\<lparr>arrays := (arrays s)(a := arrays s a @ [x])\<rparr>"

text \<open>\<^verbatim>\<open>array.filter(p)\<close> returns a new array, at an address not used before.\<close>

definition new_array :: "ref list \<Rightarrow> ('e, 'o) state \<Rightarrow> addr \<times> ('e, 'o) state" where
  "new_array xs s = (fresh s, s\<lparr>arrays := (arrays s)(fresh s := xs), fresh := Suc (fresh s)\<rparr>)"

text \<open>The accessors (lines 175-185) copy the arrays: they return the elements.\<close>

definition getRunningContainerList :: "('e, 'o) state \<Rightarrow> ref list" where
  "getRunningContainerList s = arrays s (runningImageList s)"

definition getStoppingContainerList :: "('e, 'o) state \<Rightarrow> ref list" where
  "getStoppingContainerList s = arrays s (stoppingImageList s)"

section \<open>startContainer\<close>

text \<open>Line 97: is a container with the name \<^verbatim>\<open>/<containerName>\<close> listed?\<close>

definition exist_container :: "ContainerInfo list \<Rightarrow> string option \<Rightarrow> bool" where
  "exist_container containers cn =
     list_ex (\<lambda>container. (''/'' @ interpolate cn) \<in> set (Names container)) containers"

text \<open>
  Lines 117-121, the bookkeeping after a start: push the object on the running array;
  if the stopping array holds this very object, replace the stopping array by a copy
  without the objects that carry its \<^verbatim>\<open>containerName\<close>.
\<close>

definition startContainer_record :: "ref \<Rightarrow> ('e, 'o) state \<Rightarrow> ('e, 'o) state" where
  "startContainer_record img s =
     (let s1 = push (runningImageList s) img s in
      if img \<in> set (arrays s1 (stoppingImageList s1)) then
        (case new_array
                (filter (\<lambda>image. containerName (objects s1 image) \<noteq> containerName (objects s1 img))
                   (arrays s1 (stoppingImageList s1))) s1 of
           (a, s2) \<Rightarrow> s2\<lparr>stoppingImageList := a\<rparr>)
      else s1)"

text \<open>
  \<^verbatim>\<open>startContainer\<close> (lines 94-126) in two parts. It runs up to its first
  \<^verbatim>\<open>await\<close>, where the request \<^verbatim>\<open>listContainers({all: true})\<close> has been sent; it
  resumes with the answer. A caller that awaits it runs both parts in a row.
\<close>

definition startContainer_resume ::
  "('e, 'o) Docker \<Rightarrow> ref \<Rightarrow> (error + ContainerInfo list) \<Rightarrow> ('e, 'o) state
   \<Rightarrow> (error + unit) \<times> ('e, 'o) state" where
  "startContainer_resume D img answer s =
     (case answer of
        Inl err \<Rightarrow> (Inl err, s)
      | Inr containers \<Rightarrow>
          if \<not> exist_container containers (containerName (objects s img)) then
            (case await_createContainer D (name (objects s img))
                    (containerName (objects s img)) (options (objects s img)) s of
               (Inl err, s1) \<Rightarrow> (Inl err, s1)
             | (Inr container, s1) \<Rightarrow>
                 (case await_start D container s1 of
                    (Inl err, s2) \<Rightarrow> (Inl err, s2)
                  | (Inr u, s2) \<Rightarrow> (Inr (), startContainer_record img s2)))
          else
            (let container = getContainer (containerName (objects s img)) in
             case await_inspect D container s of
               (Inl err, s1) \<Rightarrow> (Inl err, s1)
             | (Inr status, s1) \<Rightarrow>
                 if status \<noteq> ''running'' then
                   (case await_start D container s1 of
                      (Inl err, s2) \<Rightarrow> (Inl err, s2)
                    | (Inr u, s2) \<Rightarrow> (Inr (), startContainer_record img s2))
                 else (Inr (), s1)))"

definition startContainer ::
  "('e, 'o) Docker \<Rightarrow> ref \<Rightarrow> ('e, 'o) state \<Rightarrow> (error + unit) \<times> ('e, 'o) state" where
  "startContainer D img s =
     (case await_listContainers D s of
        (answer, s1) \<Rightarrow> startContainer_resume D img answer s1)"

section \<open>init\<close>

text \<open>
  \<^verbatim>\<open>init\<close> (lines 35-45) calls \<^verbatim>\<open>forEach\<close> with an \<^verbatim>\<open>async\<close> callback and awaits
  nothing. For each object in turn the callback sets \<^verbatim>\<open>containerName\<close> and calls
  \<^verbatim>\<open>startContainer(Image, IsStartContainer)\<close>, which runs to its first \<^verbatim>\<open>await\<close> and
  hands back a promise that \<^verbatim>\<open>forEach\<close> drops. \<^verbatim>\<open>startContainer\<close> declares one
  parameter, so the second argument is discarded. When \<^verbatim>\<open>forEach\<close> returns, the promise
  of \<^verbatim>\<open>init\<close> resolves; the suspended calls are left behind, each with the answer it
  waits for. (The answer is taken from the engine when the request is sent.)
\<close>

type_synonym task = "ref \<times> (error + ContainerInfo list)"

fun init_forEach ::
  "('e, 'o) Docker \<Rightarrow> ref list \<Rightarrow> bool \<Rightarrow> ('e, 'o) state \<Rightarrow> task list \<times> ('e, 'o) state" where
  "init_forEach D [] IsStartContainer s = ([], s)"
| "init_forEach D (img # rest) IsStartContainer s =
     (let s1 = s\<lparr>objects := (objects s)
                  (img := (objects s img)
                     \<lparr>containerName := Some (formatContainerName (name (objects s img)))\<rparr>)\<rparr> in
      case await_listContainers D s1 of
        (answer, s2) \<Rightarrow>
          (case init_forEach D rest IsStartContainer s2 of
             (tasks, s3) \<Rightarrow> ((img, answer) # tasks, s3)))"

text \<open>The second argument is optional and defaults to \<^verbatim>\<open>true\<close>.\<close>

definition init ::
  "('e, 'o) Docker \<Rightarrow> ref list \<Rightarrow> bool option \<Rightarrow> ('e, 'o) state
   \<Rightarrow> (error + unit) \<times> task list \<times> ('e, 'o) state" where
  "init D imageList IsStartContainer s =
     (case init_forEach D imageList (case IsStartContainer of None \<Rightarrow> True | Some b \<Rightarrow> b) s of
        (tasks, s1) \<Rightarrow> (Inr (), tasks, s1))"

text \<open>
  What happens after \<^verbatim>\<open>init\<close> has resolved: the suspended calls resume and each
  settles its own promise, which nobody holds. The result lists how each one settled.
  With several calls left behind, their steps interleave at every \<^verbatim>\<open>await\<close> in an
  order that depends on when the engine answers; \<open>settle\<close> runs one schedule only, each
  call to its end in the order of the batch. For a batch of one there is no other.
\<close>

fun settle ::
  "('e, 'o) Docker \<Rightarrow> task list \<Rightarrow> ('e, 'o) state \<Rightarrow> (error + unit) list \<times> ('e, 'o) state" where
  "settle D [] s = ([], s)"
| "settle D ((img, answer) # tasks) s =
     (case startContainer_resume D img answer s of
        (r, s1) \<Rightarrow> (case settle D tasks s1 of (rs, s2) \<Rightarrow> (r # rs, s2)))"

section \<open>pullImage\<close>

text \<open>
  \<^verbatim>\<open>pullImage\<close> (lines 54-86). The second parameter has no default in the signature:
  left out, it is \<^verbatim>\<open>undefined\<close>, which is falsy. When the callback of
  \<^verbatim>\<open>docker.pull\<close> gets an error, the promise is rejected with it (what the callback
  does next cannot change that). The result is \<open>None\<close> when the promise never settles:
  the stream never ends, or the \<^verbatim>\<open>async\<close> handler of \<^verbatim>\<open>'end'\<close> throws before it
  reaches \<^verbatim>\<open>resolve()\<close>.
\<close>

definition truthy :: "bool option \<Rightarrow> bool" where
  "truthy v = (v = Some True)"

definition image_exists :: "ImageInfo list \<Rightarrow> string \<Rightarrow> bool" where
  "image_exists images nm =
     list_ex (\<lambda>image. case RepoTags image of None \<Rightarrow> False | Some tags \<Rightarrow> nm \<in> set tags) images"

definition pullImage ::
  "('e, 'o) Docker \<Rightarrow> ref \<Rightarrow> bool option \<Rightarrow> ('e, 'o) state
   \<Rightarrow> (error + unit) option \<times> ('e, 'o) state" where
  "pullImage D img IsStartContainer s =
     (case await_listImages D s of
        (Inl err, s1) \<Rightarrow> (Some (Inl err), s1)
      | (Inr images, s1) \<Rightarrow>
          if \<not> image_exists images (name (objects s1 img)) then
            (case await_pull D (name (objects s1 img)) s1 of
               (PullError err, s2) \<Rightarrow> (Some (Inl err), s2)
             | (StreamNoEnd, s2) \<Rightarrow> (None, s2)
             | (StreamEnd, s2) \<Rightarrow>
                 if truthy IsStartContainer then
                   (case startContainer D img s2 of
                      (Inl err, s3) \<Rightarrow> (None, s3)
                    | (Inr u, s3) \<Rightarrow> (Some (Inr ()), s3))
                 else (Some (Inr ()), s2))
          else if truthy IsStartContainer then
            (case startContainer D img s1 of (r, s2) \<Rightarrow> (Some r, s2))
          else (Some (Inr ()), s1))"

section \<open>stopContainer and stop\<close>

text \<open>
  \<^verbatim>\<open>stopContainer\<close> (lines 152-169), again split at its first \<^verbatim>\<open>await\<close>: the
  handle is built and the stop request sent; it resumes with the answer.
\<close>

definition stopContainer_issue ::
  "('e, 'o) Docker \<Rightarrow> ref \<Rightarrow> ('e, 'o) state \<Rightarrow> Container \<times> (error + unit) \<times> ('e, 'o) state" where
  "stopContainer_issue D img s =
     (let container = getContainer (containerName (objects s img)) in
      case await_stop D container s of (answer, s1) \<Rightarrow> (container, answer, s1))"

definition stopContainer_resume ::
  "('e, 'o) Docker \<Rightarrow> ref \<Rightarrow> bool \<Rightarrow> Container \<Rightarrow> (error + unit) \<Rightarrow> ('e, 'o) state
   \<Rightarrow> (error + unit) \<times> ('e, 'o) state" where
  "stopContainer_resume D img IsRemoveContainer container answer s =
     (case answer of
        Inl err \<Rightarrow> (Inl err, s)
      | Inr u \<Rightarrow>
          (let s1 = push (stoppingImageList s) img s;
               s2 = (if img \<in> set (arrays s1 (runningImageList s1)) then
                       (case new_array
                               (filter (\<lambda>image. containerName (objects s1 image)
                                                 \<noteq> containerName (objects s1 img))
                                  (arrays s1 (runningImageList s1))) s1 of
                          (a, s') \<Rightarrow> s'\<lparr>runningImageList := a\<rparr>)
                     else s1)
           in if IsRemoveContainer then await_remove D container s2 else (Inr (), s2)))"

definition stopContainer ::
  "('e, 'o) Docker \<Rightarrow> ref \<Rightarrow> bool \<Rightarrow> ('e, 'o) state \<Rightarrow> (error + unit) \<times> ('e, 'o) state" where
  "stopContainer D img IsRemoveContainer s =
     (case stopContainer_issue D img s of
        (container, answer, s1) \<Rightarrow> stopContainer_resume D img IsRemoveContainer container answer s1)"

text \<open>
  The loop of \<^verbatim>\<open>stop\<close> (lines 136-138). \<^verbatim>\<open>for (const Image of this._runningImageList)\<close>
  takes the array that the field holds when the loop starts (address \<open>a\<close>) and, at each
  step, reads its length and its element \<open>i\<close> as they are then. The first
  \<^verbatim>\<open>stopContainer\<close> that throws ends the loop.

  While the loop is suspended at \<^verbatim>\<open>await container.stop()\<close>, the event loop may resume
  other calls. \<open>others\<close> lists, for each round of the loop, the objects whose pending
  \<^verbatim>\<open>startContainer\<close> resumes there after its \<^verbatim>\<open>container.start()\<close> (lines 117-121
  run); it is empty when nothing else is in flight. The loop returns \<open>None\<close> when it
  does not end.
\<close>

definition resume_others :: "ref list list \<Rightarrow> ('e, 'o) state \<Rightarrow> ('e, 'o) state" where
  "resume_others others s =
     (case others of [] \<Rightarrow> s | rs # _ \<Rightarrow> foldl (\<lambda>t r. startContainer_record r t) s rs)"

partial_function (option) stop_loop ::
  "('e, 'o) Docker \<Rightarrow> ref list list \<Rightarrow> addr \<Rightarrow> nat \<Rightarrow> bool \<Rightarrow> ('e, 'o) state
   \<Rightarrow> ((error + unit) \<times> ('e, 'o) state) option" where
  "stop_loop D others a i IsRemoveContainer s =
     (if i < length (arrays s a) then
        (case stopContainer_issue D (arrays s a ! i) s of
           (container, answer, s1) \<Rightarrow>
             (case stopContainer_resume D (arrays s a ! i) IsRemoveContainer container answer
                     (resume_others others s1) of
                (Inl err, s2) \<Rightarrow> Some (Inl err, s2)
              | (Inr u, s2) \<Rightarrow> stop_loop D (tl others) a (Suc i) IsRemoveContainer s2))
      else Some (Inr (), s))"

declare stop_loop.simps [code]

text \<open>\<^verbatim>\<open>stop\<close> (lines 134-143), with nothing else in flight. The argument defaults to \<^verbatim>\<open>false\<close>.\<close>

definition stop ::
  "('e, 'o) Docker \<Rightarrow> bool option \<Rightarrow> ('e, 'o) state \<Rightarrow> ((error + unit) \<times> ('e, 'o) state) option" where
  "stop D IsRemoveContainer s =
     stop_loop D [] (runningImageList s) 0
       (case IsRemoveContainer of None \<Rightarrow> False | Some b \<Rightarrow> b) s"

text \<open>
  The reading of the specification: \<^verbatim>\<open>stopAll\<close> takes a snapshot of the running list
  and applies \<^verbatim>\<open>stopOne\<close> to each of its entries in order; the first failure is
  raised.
\<close>

fun stopAll_snapshot ::
  "('e, 'o) Docker \<Rightarrow> bool \<Rightarrow> ref list \<Rightarrow> ('e, 'o) state \<Rightarrow> (error + unit) \<times> ('e, 'o) state" where
  "stopAll_snapshot D IsRemoveContainer [] s = (Inr (), s)"
| "stopAll_snapshot D IsRemoveContainer (img # rest) s =
     (case stopContainer D img IsRemoveContainer s of
        (Inl err, s1) \<Rightarrow> (Inl err, s1)
      | (Inr u, s1) \<Rightarrow> stopAll_snapshot D IsRemoveContainer rest s1)"

section \<open>Well-formed states and counting requests\<close>

text \<open>
  In every state the manager can be in, the two fields hold different arrays, both
  allocated before the next unused address.
\<close>

definition wf :: "('e, 'o) state \<Rightarrow> bool" where
  "wf s = (runningImageList s < fresh s \<and> stoppingImageList s < fresh s
           \<and> runningImageList s \<noteq> stoppingImageList s)"

text \<open>The requests issued between an earlier state and a later one.\<close>

definition calls_since :: "('e, 'o) state \<Rightarrow> ('e, 'o) state \<Rightarrow> call list" where
  "calls_since s s' = drop (length (calls s)) (calls s')"

fun is_pull :: "call \<Rightarrow> bool" where
  "is_pull (Pull nm) = True"
| "is_pull c = False"

fun is_create :: "call \<Rightarrow> bool" where
  "is_create (CreateContainer imageName nm) = True"
| "is_create c = False"

fun is_start :: "call \<Rightarrow> bool" where
  "is_start (Start c) = True"
| "is_start c = False"

definition count_calls :: "(call \<Rightarrow> bool) \<Rightarrow> call list \<Rightarrow> nat" where
  "count_calls p cs = length (filter p cs)"

text \<open>The container names recorded in an array.\<close>

definition names_of :: "('e, 'o) state \<Rightarrow> ref list \<Rightarrow> string option list" where
  "names_of s xs = map (\<lambda>image. containerName (objects s image)) xs"

text \<open>No container name is recorded in both lists.\<close>

definition exclusive :: "('e, 'o) state \<Rightarrow> bool" where
  "exclusive s =
     (set (names_of s (getRunningContainerList s))
        \<inter> set (names_of s (getStoppingContainerList s)) = {})"

section \<open>A small engine to run the manager on\<close>

text \<open>
  An engine for concrete runs: the tags of its images, its containers by name with
  their status, and the requests it is set to refuse. It creates a container only from
  an image it has and under a name not taken, starts what is not running, stops what is
  running and removes what is not running.
\<close>

record sim =
  sim_images :: "string list list"
  sim_containers :: "(string \<times> string) list"
  sim_refused :: "call list"

definition sim_set_status :: "string \<Rightarrow> string \<Rightarrow> sim \<Rightarrow> sim" where
  "sim_set_status n st e =
     e\<lparr>sim_containers := map (\<lambda>(m, t). if m = n then (m, st) else (m, t)) (sim_containers e)\<rparr>"

definition sim_status :: "Container \<Rightarrow> sim \<Rightarrow> (string \<times> string) option" where
  "sim_status c e =
     (case c of
        Container None \<Rightarrow> None
      | Container (Some n) \<Rightarrow> map_option (\<lambda>st. (n, st)) (map_of (sim_containers e) n))"

definition sim_listImages :: "sim \<Rightarrow> (error + ImageInfo list) \<times> sim" where
  "sim_listImages e =
     (if ListImages \<in> set (sim_refused e) then (Inl EngineUnavailable, e)
      else (Inr (map (\<lambda>tags. \<lparr>RepoTags = Some tags\<rparr>) (sim_images e)), e))"

definition sim_pull :: "string \<Rightarrow> sim \<Rightarrow> pull_result \<times> sim" where
  "sim_pull nm e =
     (if Pull nm \<in> set (sim_refused e) then (PullError PullFailed, e)
      else (StreamEnd, e\<lparr>sim_images := sim_images e @ [[nm]]\<rparr>))"

definition sim_listContainers :: "sim \<Rightarrow> (error + ContainerInfo list) \<times> sim" where
  "sim_listContainers e =
     (if ListContainers \<in> set (sim_refused e) then (Inl EngineUnavailable, e)
      else (Inr (map (\<lambda>(n, st). \<lparr>Names = [''/'' @ n]\<rparr>) (sim_containers e)), e))"

definition sim_createContainer ::
  "string \<Rightarrow> string option \<Rightarrow> unit \<Rightarrow> sim \<Rightarrow> (error + Container) \<times> sim" where
  "sim_createContainer imageName nm opts e =
     (if CreateContainer imageName nm \<in> set (sim_refused e) then (Inl CreateFailed, e)
      else if \<not> list_ex (\<lambda>tags. imageName \<in> set tags) (sim_images e) then (Inl NotFound, e)
      else case nm of
        None \<Rightarrow> (Inl CreateFailed, e)
      | Some n \<Rightarrow>
          (case map_of (sim_containers e) n of
             Some st \<Rightarrow> (Inl CreateFailed, e)
           | None \<Rightarrow>
               (Inr (Container (Some n)),
                e\<lparr>sim_containers := sim_containers e @ [(n, ''created'')]\<rparr>)))"

definition sim_start :: "Container \<Rightarrow> sim \<Rightarrow> (error + unit) \<times> sim" where
  "sim_start c e =
     (if Start c \<in> set (sim_refused e) then (Inl StartFailed, e)
      else case sim_status c e of
        None \<Rightarrow> (Inl NotFound, e)
      | Some (n, st) \<Rightarrow>
          if st = ''running'' then (Inl StartFailed, e)
          else (Inr (), sim_set_status n ''running'' e))"

definition sim_stop :: "Container \<Rightarrow> sim \<Rightarrow> (error + unit) \<times> sim" where
  "sim_stop c e =
     (if Stop c \<in> set (sim_refused e) then (Inl StopFailed, e)
      else case sim_status c e of
        None \<Rightarrow> (Inl NotFound, e)
      | Some (n, st) \<Rightarrow>
          if st \<noteq> ''running'' then (Inl StopFailed, e)
          else (Inr (), sim_set_status n ''exited'' e))"

definition sim_remove :: "Container \<Rightarrow> sim \<Rightarrow> (error + unit) \<times> sim" where
  "sim_remove c e =
     (if Remove c \<in> set (sim_refused e) then (Inl RemoveFailed, e)
      else case sim_status c e of
        None \<Rightarrow> (Inl NotFound, e)
      | Some (n, st) \<Rightarrow>
          if st = ''running'' then (Inl RemoveFailed, e)
          else (Inr (), e\<lparr>sim_containers := filter (\<lambda>(m, t). m \<noteq> n) (sim_containers e)\<rparr>))"

definition sim_inspect :: "Container \<Rightarrow> sim \<Rightarrow> (error + string) \<times> sim" where
  "sim_inspect c e =
     (if Inspect c \<in> set (sim_refused e) then (Inl EngineUnavailable, e)
      else case sim_status c e of
        None \<Rightarrow> (Inl NotFound, e)
      | Some (n, st) \<Rightarrow> (Inr st, e))"

definition Sim :: "(sim, unit) Docker" where
  "Sim =
     \<lparr>listImages = sim_listImages, pull = sim_pull, listContainers = sim_listContainers,
      createContainer = sim_createContainer, container_start = sim_start,
      container_stop = sim_stop, container_remove = sim_remove,
      container_inspect = sim_inspect\<rparr>"

text \<open>Objects for the runs: every address holds a spec of the image \<^verbatim>\<open>nginx:latest\<close>.\<close>

definition nginx :: "ref \<Rightarrow> unit DockerImage" where
  "nginx r = \<lparr>name = ''nginx:latest'', containerName = None, options = ()\<rparr>"

definition web :: "ref \<Rightarrow> unit DockerImage" where
  "web r = \<lparr>name = ''nginx:latest'', containerName = Some ''web'', options = ()\<rparr>"

definition empty_engine :: sim where
  "empty_engine = \<lparr>sim_images = [], sim_containers = [], sim_refused = []\<rparr>"

definition engine_with_image :: sim where
  "engine_with_image = \<lparr>sim_images = [[''nginx:latest'']], sim_containers = [], sim_refused = []\<rparr>"

definition engine_running_web :: sim where
  "engine_running_web =
     \<lparr>sim_images = [[''nginx:latest'']], sim_containers = [(''web'', ''running'')],
      sim_refused = []\<rparr>"


definition refusing_start :: sim where
  "refusing_start =
     \<lparr>sim_images = [[''nginx:latest'']], sim_containers = [],
      sim_refused = [Start (Container (Some ''nginx-latest-container''))]\<rparr>"

definition refusing_remove :: sim where
  "refusing_remove =
     \<lparr>sim_images = [[''nginx:latest'']], sim_containers = [],
      sim_refused = [Remove (Container (Some ''web''))]\<rparr>"

definition refusing_stop_a :: sim where
  "refusing_stop_a =
     \<lparr>sim_images = [[''nginx:latest'']], sim_containers = [],
      sim_refused = [Stop (Container (Some ''a''))]\<rparr>"

text \<open>Two specs of the same image with the container names \<^verbatim>\<open>a\<close> (object 0) and \<^verbatim>\<open>b\<close>.\<close>

definition two_specs :: "ref \<Rightarrow> unit DockerImage" where
  "two_specs r =
     \<lparr>name = ''nginx:latest'', containerName = Some (if r = 0 then ''a'' else ''b''),
      options = ()\<rparr>"

text \<open>
  \<^verbatim>\<open>init([{name: 'nginx:latest'}])\<close> on a new manager whose engine has no image and no
  container: the state when the promise of \<^verbatim>\<open>init\<close> resolves, and after the call it
  left behind has settled.
\<close>

definition nginx_batch :: "(error + unit) \<times> task list \<times> (sim, unit) state" where
  "nginx_batch = init Sim [0] None (constructor empty_engine nginx)"

definition nginx_batch_settled :: "(error + unit) list \<times> (sim, unit) state" where
  "nginx_batch_settled = settle Sim (fst (snd nginx_batch)) (snd (snd nginx_batch))"

text \<open>\<^verbatim>\<open>init([{name: 'nginx:latest'}], false)\<close> on an engine that has the image.\<close>

definition unstarted_batch :: "(error + unit) \<times> task list \<times> (sim, unit) state" where
  "unstarted_batch = init Sim [0] (Some False) (constructor engine_with_image nginx)"

definition unstarted_batch_settled :: "(error + unit) list \<times> (sim, unit) state" where
  "unstarted_batch_settled = settle Sim (fst (snd unstarted_batch)) (snd (snd unstarted_batch))"

text \<open>\<^verbatim>\<open>init([{name: 'nginx:latest'}])\<close> on an engine that refuses to start the container.\<close>

definition failing_batch :: "(error + unit) \<times> task list \<times> (sim, unit) state" where
  "failing_batch = init Sim [0] None (constructor refusing_start nginx)"

definition failing_batch_settled :: "(error + unit) list \<times> (sim, unit) state" where
  "failing_batch_settled = settle Sim (fst (snd failing_batch)) (snd (snd failing_batch))"

text \<open>
  \<^verbatim>\<open>startContainer\<close> on object 0, then \<^verbatim>\<open>stopContainer\<close> on object 1: another object
  with the same \<^verbatim>\<open>containerName\<close>, \<^verbatim>\<open>web\<close>.
\<close>

definition started_web :: "(sim, unit) state" where
  "started_web = snd (startContainer Sim 0 (constructor engine_with_image web))"

definition stopped_by_copy :: "(error + unit) \<times> (sim, unit) state" where
  "stopped_by_copy = stopContainer Sim 1 False started_web"

text \<open>\<^verbatim>\<open>startContainer\<close> on a new manager whose engine already runs the container.\<close>

definition already_running :: "(error + unit) \<times> (sim, unit) state" where
  "already_running = startContainer Sim 0 (constructor engine_running_web web)"



text \<open>A started spec on an engine that refuses to remove its container.\<close>

definition started_unremovable :: "(sim, unit) state" where
  "started_unremovable = snd (startContainer Sim 0 (constructor refusing_remove web))"

text \<open>
  Object 0 is recorded as running; \<^verbatim>\<open>startContainer\<close> for object 1 is in flight: its
  container has been created and started, and lines 117-121 have not run yet.
\<close>

definition one_in_flight :: "(sim, unit) state" where
  "one_in_flight =
     snd (await_start Sim (Container (Some ''b''))
       (snd (await_createContainer Sim ''nginx:latest'' (Some ''b'') ()
         (snd (await_listContainers Sim
           (snd (startContainer Sim 0 (constructor engine_with_image two_specs))))))))"

text \<open>Objects 0 and 1 are recorded as running, and the engine refuses to stop the first.\<close>

definition two_started :: "(sim, unit) state" where
  "two_started =
     snd (startContainer Sim 1 (snd (startContainer Sim 0 (constructor refusing_stop_a two_specs))))"










section \<open>Name derivation: results\<close>

lemma replace_first_absent: "c \<notin> set xs \<Longrightarrow> replace_first c d xs = xs"
  by (induction xs) auto

lemma formatContainerName_nginx:
  "formatContainerName ''nginx:latest'' = ''nginx-latest-container''"
  by (simp add: formatContainerName_def)

lemma formatContainerName_single_colon:
  "CHR '':'' \<notin> set pre \<Longrightarrow> CHR '':'' \<notin> set post \<Longrightarrow>
   formatContainerName (pre @ CHR '':'' # post) = pre @ CHR ''-'' # post @ ''-container''"
  by (induction pre) (auto simp: formatContainerName_def replace_first_absent)

text \<open>
  C6. The derived name is the image string followed by \<^verbatim>\<open>-container\<close> with every colon
  replaced by a hyphen. The code replaces the first colon only: for an image reference
  with a registry port, the colon before the tag stays in the name.
\<close>

theorem formatContainerName_keeps_second_colon:
  "formatContainerName ''localhost:5000/nginx:latest'' = ''localhost-5000/nginx:latest-container''
   \<and> CHR '':'' \<in> set (formatContainerName ''localhost:5000/nginx:latest'')"
  by (simp add: formatContainerName_def)

section \<open>Requests and bookkeeping: basic facts\<close>

lemma count_calls_Nil [simp]: "count_calls p [] = 0"
  by (simp add: count_calls_def)

lemma count_calls_Cons [simp]:
  "count_calls p (c # cs) = (if p c then Suc (count_calls p cs) else count_calls p cs)"
  by (simp add: count_calls_def)

lemma count_calls_append [simp]:
  "count_calls p (cs @ ds) = count_calls p cs + count_calls p ds"
  by (simp add: count_calls_def)


lemma wf_constructor: "wf (constructor e objs)"
  by (simp add: wf_def constructor_def)

lemma wf_startContainer_record: "wf s \<Longrightarrow> wf (startContainer_record img s)"
  by (auto simp: wf_def startContainer_record_def push_def new_array_def Let_def)

lemma wf_startContainer_resume: "wf s \<Longrightarrow> wf (snd (startContainer_resume D img answer s))"
  by (auto simp: startContainer_resume_def await_createContainer_def await_start_def
        await_inspect_def Let_def wf_startContainer_record wf_def
        split: sum.splits prod.splits
        intro!: wf_startContainer_record [unfolded wf_def])

lemma wf_startContainer: "wf s \<Longrightarrow> wf (snd (startContainer D img s))"
  using wf_startContainer_resume [of "snd (await_listContainers D s)" D img]
  by (auto simp: startContainer_def await_listContainers_def wf_def split: prod.splits)

lemma wf_stopContainer: "wf s \<Longrightarrow> wf (snd (stopContainer D img rm s))"
  by (auto simp: stopContainer_def stopContainer_issue_def stopContainer_resume_def
        await_stop_def await_remove_def push_def new_array_def Let_def wf_def
        split: sum.splits prod.splits)

lemma await_stop_fields:
  "await_stop D c s = (r, s') \<Longrightarrow>
   objects s' = objects s \<and> arrays s' = arrays s \<and> fresh s' = fresh s
   \<and> runningImageList s' = runningImageList s \<and> stoppingImageList s' = stoppingImageList s
   \<and> calls s' = calls s @ [Stop c] \<and> (r, docker s') = container_stop D c (docker s)"
  by (auto simp: await_stop_def split: prod.splits)

lemma await_remove_fields:
  "await_remove D c s = (r, s') \<Longrightarrow>
   objects s' = objects s \<and> arrays s' = arrays s \<and> fresh s' = fresh s
   \<and> runningImageList s' = runningImageList s \<and> stoppingImageList s' = stoppingImageList s
   \<and> calls s' = calls s @ [Remove c] \<and> (r, docker s') = container_remove D c (docker s)"
  by (auto simp: await_remove_def split: prod.splits)

lemma startContainer_record_fields:
  "objects (startContainer_record img s) = objects s"
  "calls (startContainer_record img s) = calls s"
  "docker (startContainer_record img s) = docker s"
  by (simp_all add: startContainer_record_def push_def new_array_def Let_def)

section \<open>init\<close>

text \<open>
  Whatever the batch, the engine and the flag: the promise of \<^verbatim>\<open>init\<close> resolves, the
  flag changes nothing, and no image is pulled.
\<close>

lemma init_resolves: "fst (init D imageList IsStartContainer s) = Inr ()"
  by (simp add: init_def split: prod.splits)

lemma init_forEach_flag: "init_forEach D imageList b s = init_forEach D imageList b' s"
  by (induction imageList arbitrary: s) (auto simp: Let_def split: prod.splits)

lemma init_ignores_flag: "init D imageList flag s = init D imageList flag' s"
  using init_forEach_flag [of D imageList _ s] by (simp add: init_def)

lemma init_forEach_no_pull:
  "count_calls is_pull (calls (snd (init_forEach D imageList b s))) = count_calls is_pull (calls s)"
proof (induction imageList arbitrary: s)
  case Nil
  then show ?case by simp
next
  case (Cons img rest)
  let ?s1 = "s\<lparr>objects := (objects s)
                 (img := (objects s img)
                    \<lparr>containerName := Some (formatContainerName (name (objects s img)))\<rparr>)\<rparr>"
  obtain answer s2 where a: "await_listContainers D ?s1 = (answer, s2)"
    by (cases "await_listContainers D ?s1")
  obtain tasks s3 where r: "init_forEach D rest b s2 = (tasks, s3)"
    by (cases "init_forEach D rest b s2")
  have "calls s2 = calls s @ [ListContainers]"
    using a by (auto simp: await_listContainers_def split: prod.splits)
  then have "count_calls is_pull (calls s2) = count_calls is_pull (calls s)"
    by simp
  moreover have "count_calls is_pull (calls s3) = count_calls is_pull (calls s2)"
    using Cons.IH [of s2] r by simp
  ultimately show ?case
    using a r by (simp add: Let_def)
qed

lemma startContainer_resume_no_pull:
  "count_calls is_pull (calls (snd (startContainer_resume D img answer s)))
     = count_calls is_pull (calls s)"
  by (auto simp: startContainer_resume_def await_createContainer_def await_start_def
        await_inspect_def Let_def startContainer_record_fields split: sum.splits prod.splits)

lemma settle_no_pull:
  "count_calls is_pull (calls (snd (settle D tasks s))) = count_calls is_pull (calls s)"
proof (induction tasks arbitrary: s)
  case Nil
  then show ?case by simp
next
  case (Cons t tasks)
  obtain img answer where t: "t = (img, answer)" by (cases t)
  obtain r s1 where r: "startContainer_resume D img answer s = (r, s1)"
    by (cases "startContainer_resume D img answer s")
  obtain rs s2 where rest: "settle D tasks s1 = (rs, s2)"
    by (cases "settle D tasks s1")
  have "count_calls is_pull (calls s1) = count_calls is_pull (calls s)"
    using startContainer_resume_no_pull [of D img answer s] r by simp
  moreover have "count_calls is_pull (calls s2) = count_calls is_pull (calls s1)"
    using Cons.IH [of s1] rest by simp
  ultimately show ?case
    using t r rest by simp
qed

text \<open>
  C1. For the batch \<^verbatim>\<open>[{image: "nginx:latest"}]\<close> on an engine with no such image and
  no such container, \<^verbatim>\<open>init\<close> causes one pull of \<^verbatim>\<open>nginx:latest\<close>, one
  \<^verbatim>\<open>createContainer\<close> and one \<^verbatim>\<open>start\<close>, and the running list then holds exactly
  that spec, named \<^verbatim>\<open>nginx-latest-container\<close>. The code never pulls: \<^verbatim>\<open>init\<close> goes
  straight to \<^verbatim>\<open>startContainer\<close>. When its promise resolves, only the listing of the
  containers has been requested and the running list is empty; afterwards the creation is
  requested for an image the engine does not have, is refused, and nothing is started or
  recorded.
\<close>

theorem init_nginx_never_pulls:
  "fst nginx_batch = Inr ()
   \<and> calls (snd (snd nginx_batch)) = [ListContainers]
   \<and> getRunningContainerList (snd (snd nginx_batch)) = []
   \<and> containerName (objects (snd (snd nginx_batch)) 0) = Some ''nginx-latest-container''
   \<and> fst nginx_batch_settled = [Inl NotFound]
   \<and> calls (snd nginx_batch_settled) =
        [ListContainers, CreateContainer ''nginx:latest'' (Some ''nginx-latest-container'')]
   \<and> count_calls is_pull (calls (snd nginx_batch_settled)) = 0
   \<and> getRunningContainerList (snd nginx_batch_settled) = []"
  unfolding nginx_batch_settled_def nginx_batch_def by code_simp

text \<open>
  C2. With \<^verbatim>\<open>startContainers = false\<close>, \<^verbatim>\<open>init\<close> creates and starts nothing. The
  code passes the flag to \<^verbatim>\<open>startContainer\<close>, which has no such parameter: the
  container is created and started all the same.
\<close>

theorem init_false_still_starts:
  "fst unstarted_batch = Inr ()
   \<and> fst unstarted_batch_settled = [Inr ()]
   \<and> calls (snd unstarted_batch_settled) =
        [ListContainers, CreateContainer ''nginx:latest'' (Some ''nginx-latest-container''),
         Start (Container (Some ''nginx-latest-container''))]
   \<and> getRunningContainerList (snd unstarted_batch_settled) = [0]"
  unfolding unstarted_batch_settled_def unstarted_batch_def by code_simp

text \<open>
  C3. When the convergence of a spec of the batch fails, \<^verbatim>\<open>init\<close> makes the failure
  known to its caller. In the code the promise of \<^verbatim>\<open>init\<close> has resolved before the
  call it started fails: here the engine refuses the start, the call left behind is
  rejected with that error, and \<^verbatim>\<open>init\<close> has reported success.
\<close>

theorem init_resolves_though_start_fails:
  "fst failing_batch = Inr ()
   \<and> fst failing_batch_settled = [Inl StartFailed]
   \<and> calls (snd failing_batch_settled) =
        [ListContainers, CreateContainer ''nginx:latest'' (Some ''nginx-latest-container''),
         Start (Container (Some ''nginx-latest-container''))]
   \<and> getRunningContainerList (snd failing_batch_settled) = []"
  unfolding failing_batch_settled_def failing_batch_def by code_simp

section \<open>The two lists\<close>

text \<open>
  C4. After a successful \<^verbatim>\<open>startContainer\<close> or \<^verbatim>\<open>stopContainer\<close>, the
  \<^verbatim>\<open>containerName\<close> of the spec is in exactly one of the two lists, also when the
  object passed is another object with the same \<^verbatim>\<open>containerName\<close>. The code looks the
  object up by identity (\<^verbatim>\<open>includes\<close>) before it filters by name: object 0 is started,
  object 1 with the same name is stopped, and the name \<^verbatim>\<open>web\<close> is in both lists.
\<close>

theorem same_name_in_both_lists:
  "fst (startContainer Sim 0 (constructor engine_with_image web)) = Inr ()
   \<and> fst stopped_by_copy = Inr ()
   \<and> getRunningContainerList (snd stopped_by_copy) = [0]
   \<and> getStoppingContainerList (snd stopped_by_copy) = [1]
   \<and> names_of (snd stopped_by_copy) (getRunningContainerList (snd stopped_by_copy)) = [Some ''web'']
   \<and> names_of (snd stopped_by_copy) (getStoppingContainerList (snd stopped_by_copy)) = [Some ''web'']"
  unfolding stopped_by_copy_def started_web_def by code_simp

text \<open>
  What does hold: a call keeps the two lists free of common names when the object it is
  given is itself in the list it leaves, or when no object of that list carries its name.
\<close>

lemma stopContainer_lists:
  assumes "wf s" and "stopContainer D img rm s = (r, s')"
  shows "objects s' = objects s
    \<and> (getRunningContainerList s' = getRunningContainerList s
          \<and> getStoppingContainerList s' = getStoppingContainerList s
        \<or> getStoppingContainerList s' = getStoppingContainerList s @ [img]
          \<and> getRunningContainerList s' =
              (if img \<in> set (getRunningContainerList s)
               then filter (\<lambda>image. containerName (objects s image) \<noteq> containerName (objects s img))
                      (getRunningContainerList s)
               else getRunningContainerList s))"
  using assms
  by (auto simp: stopContainer_def stopContainer_issue_def stopContainer_resume_def Let_def
        push_def new_array_def wf_def getRunningContainerList_def getStoppingContainerList_def
        split: prod.splits sum.splits if_splits
        dest!: await_stop_fields await_remove_fields)

lemma startContainer_record_lists:
  assumes "wf s"
  shows "getRunningContainerList (startContainer_record img s) = getRunningContainerList s @ [img]"
    and "getStoppingContainerList (startContainer_record img s) =
           (if img \<in> set (getStoppingContainerList s)
            then filter (\<lambda>image. containerName (objects s image) \<noteq> containerName (objects s img))
                   (getStoppingContainerList s)
            else getStoppingContainerList s)"
  using assms
  by (auto simp: startContainer_record_def Let_def push_def new_array_def wf_def
        getRunningContainerList_def getStoppingContainerList_def)

lemma stopContainer_exclusive:
  assumes "wf s" and "exclusive s"
    and "img \<in> set (getRunningContainerList s)
         \<or> containerName (objects s img) \<notin> set (names_of s (getRunningContainerList s))"
    and "stopContainer D img rm s = (r, s')"
  shows "exclusive s'"
proof -
  from stopContainer_lists [OF assms(1) assms(4)]
  have obj: "objects s' = objects s"
    and lists: "getRunningContainerList s' = getRunningContainerList s
          \<and> getStoppingContainerList s' = getStoppingContainerList s
        \<or> getStoppingContainerList s' = getStoppingContainerList s @ [img]
          \<and> getRunningContainerList s' =
              (if img \<in> set (getRunningContainerList s)
               then filter (\<lambda>image. containerName (objects s image) \<noteq> containerName (objects s img))
                      (getRunningContainerList s)
               else getRunningContainerList s)"
    by simp_all
  from lists show ?thesis
  proof
    assume "getRunningContainerList s' = getRunningContainerList s
          \<and> getStoppingContainerList s' = getStoppingContainerList s"
    then show ?thesis
      using assms(2) obj by (simp add: exclusive_def names_of_def)
  next
    assume "getStoppingContainerList s' = getStoppingContainerList s @ [img]
          \<and> getRunningContainerList s' =
              (if img \<in> set (getRunningContainerList s)
               then filter (\<lambda>image. containerName (objects s image) \<noteq> containerName (objects s img))
                      (getRunningContainerList s)
               else getRunningContainerList s)"
    then show ?thesis
      using assms(2,3) obj
      by (auto simp: exclusive_def names_of_def split: if_splits)
  qed
qed

lemma startContainer_record_exclusive:
  assumes "wf s" and "exclusive s"
    and "img \<in> set (getStoppingContainerList s)
         \<or> containerName (objects s img) \<notin> set (names_of s (getStoppingContainerList s))"
  shows "exclusive (startContainer_record img s)"
  using assms(2,3) startContainer_record_lists [OF assms(1), of img]
  by (auto simp: exclusive_def names_of_def startContainer_record_fields split: if_splits)

section \<open>startContainer\<close>



text \<open>
  C5. For a spec whose container exists and is inspected as \<^verbatim>\<open>running\<close>,
  \<^verbatim>\<open>startContainer\<close> sends no start, returns without error, and the spec ends up in
  the running list. The code returns at line 114, before the bookkeeping of lines 117-121
  that the two other branches reach: on a new manager the spec is not recorded.
\<close>

theorem already_running_not_recorded:
  "fst already_running = Inr ()
   \<and> calls (snd already_running) = [ListContainers, Inspect (Container (Some ''web''))]
   \<and> getRunningContainerList (snd already_running) = []
   \<and> getStoppingContainerList (snd already_running) = []"
  unfolding already_running_def by code_simp















section \<open>stopContainer and stop\<close>

text \<open>
  C8. For a spec recorded as running whose container the engine stops,
  \<^verbatim>\<open>stopContainer\<close> with \<^verbatim>\<open>IsRemoveContainer = true\<close> sends one stop and then one
  remove; afterwards the spec is in the stopping list and not in the running list; the
  call returns what the remove returned, so a failed remove is raised and the lists stay
  as the stop left them.
\<close>

theorem stopContainer_then_remove:
  assumes "wf s"
    and "img \<in> set (getRunningContainerList s)"
    and "container_stop D (getContainer (containerName (objects s img))) (docker s) = (Inr (), e)"
  shows "calls_since s (snd (stopContainer D img True s)) =
           [Stop (getContainer (containerName (objects s img))),
            Remove (getContainer (containerName (objects s img)))]
         \<and> img \<in> set (getStoppingContainerList (snd (stopContainer D img True s)))
         \<and> img \<notin> set (getRunningContainerList (snd (stopContainer D img True s)))
         \<and> fst (stopContainer D img True s) =
             fst (container_remove D (getContainer (containerName (objects s img))) e)"
  using assms
  by (auto simp: stopContainer_def stopContainer_issue_def stopContainer_resume_def Let_def
        push_def new_array_def await_stop_def await_remove_def calls_since_def wf_def
        getRunningContainerList_def getStoppingContainerList_def
        split: prod.splits sum.splits)

theorem stopContainer_then_remove_witness:
  "wf started_unremovable
   \<and> 0 \<in> set (getRunningContainerList started_unremovable)
   \<and> fst (container_stop Sim (Container (Some ''web'')) (docker started_unremovable)) = Inr ()
   \<and> calls_since started_unremovable (snd (stopContainer Sim 0 True started_unremovable)) =
        [Stop (Container (Some ''web'')), Remove (Container (Some ''web''))]
   \<and> 0 \<in> set (getStoppingContainerList (snd (stopContainer Sim 0 True started_unremovable)))
   \<and> 0 \<notin> set (getRunningContainerList (snd (stopContainer Sim 0 True started_unremovable)))
   \<and> fst (stopContainer Sim 0 True started_unremovable) = Inl RemoveFailed"
proof -
  let ?c = "getContainer (containerName (objects started_unremovable 0))"
  let ?e = "snd (container_stop Sim ?c (docker started_unremovable))"
  have w: "wf started_unremovable"
    unfolding started_unremovable_def by code_simp
  have m: "0 \<in> set (getRunningContainerList started_unremovable)"
    unfolding started_unremovable_def by code_simp
  have c: "?c = Container (Some ''web'')"
    unfolding started_unremovable_def by code_simp
  have ok: "fst (container_stop Sim ?c (docker started_unremovable)) = Inr ()"
    unfolding started_unremovable_def by code_simp
  then have st: "container_stop Sim ?c (docker started_unremovable) = (Inr (), ?e)"
    by (simp add: prod_eq_iff)
  have rm: "fst (container_remove Sim ?c ?e) = Inl RemoveFailed"
    unfolding started_unremovable_def by code_simp
  show ?thesis
    using stopContainer_then_remove [OF w m st] w m ok rm c by simp
qed

lemma stopContainer_frame:
  assumes "stopContainer D img rm s = (r, s')"
    and "a < fresh s" and "a \<noteq> stoppingImageList s"
  shows "arrays s' a = arrays s a \<and> a < fresh s' \<and> stoppingImageList s' = stoppingImageList s"
  using assms
  by (auto simp: stopContainer_def stopContainer_issue_def stopContainer_resume_def Let_def
        push_def new_array_def
        split: prod.splits sum.splits if_splits dest!: await_stop_fields await_remove_fields)

text \<open>
  With nothing else in flight, the loop over the array at \<open>a\<close> from index \<open>i\<close> is the
  iteration over the elements the array has from \<open>i\<close> on when the loop gets there:
  \<^verbatim>\<open>stopContainer\<close> pushes on the stopping array and puts its filtered copy of the
  running array at a new address, so the array at \<open>a\<close> is never written.
\<close>

lemma stop_loop_snapshot:
  "a < fresh s \<Longrightarrow> a \<noteq> stoppingImageList s \<Longrightarrow>
   stop_loop D [] a i rm s = Some (stopAll_snapshot D rm (drop i (arrays s a)) s)"
proof (induction "length (arrays s a) - i" arbitrary: i s)
  case 0
  then show ?case by (simp add: stop_loop.simps)
next
  case (Suc n)
  then have lt: "i < length (arrays s a)" by simp
  obtain r s' where st: "stopContainer D (arrays s a ! i) rm s = (r, s')"
    by (cases "stopContainer D (arrays s a ! i) rm s")
  from stopContainer_frame [OF st Suc.prems]
  have fr: "arrays s' a = arrays s a" "a < fresh s'" "stoppingImageList s' = stoppingImageList s"
    by simp_all
  have dr: "drop i (arrays s a) = arrays s a ! i # drop (Suc i) (arrays s a)"
    using lt by (simp add: Cons_nth_drop_Suc)
  have step: "stop_loop D [] a i rm s =
     (case stopContainer D (arrays s a ! i) rm s of
        (Inl err, s2) \<Rightarrow> Some (Inl err, s2)
      | (Inr u, s2) \<Rightarrow> stop_loop D [] a (Suc i) rm s2)"
    using lt
    by (subst stop_loop.simps)
       (simp add: stopContainer_def resume_others_def split: prod.splits sum.splits)
  show ?case
  proof (cases r)
    case (Inl err)
    then show ?thesis using st dr step by simp
  next
    case (Inr u)
    have "n = length (arrays s' a) - Suc i" using Suc.hyps(2) fr by simp
    from Suc.hyps(1) [OF this fr(2)] fr Suc.prems
    have "stop_loop D [] a (Suc i) rm s' =
            Some (stopAll_snapshot D rm (drop (Suc i) (arrays s a)) s')"
      by simp
    then show ?thesis using st dr step Inr by simp
  qed
qed

text \<open>
  C9, as amended. With no other call in flight, \<^verbatim>\<open>stop\<close> returns, and does what the
  iteration over a snapshot does: \<^verbatim>\<open>stopContainer\<close> on each entry that the running
  list has when \<^verbatim>\<open>stop\<close> begins, once per entry and in order, up to the first one
  that fails, and on nothing else. The removals that \<^verbatim>\<open>stopContainer\<close> makes do not
  touch the array being iterated.
\<close>

theorem stop_is_snapshot:
  "wf s \<Longrightarrow>
   stop D IsRemoveContainer s =
     Some (stopAll_snapshot D (case IsRemoveContainer of None \<Rightarrow> False | Some b \<Rightarrow> b)
             (getRunningContainerList s) s)"
  using stop_loop_snapshot [of "runningImageList s" s D 0]
  by (simp add: stop_def wf_def getRunningContainerList_def)

theorem stop_is_snapshot_witness:
  "wf started_web
   \<and> getRunningContainerList started_web = [0]
   \<and> map_option fst (stop Sim None started_web) = Some (Inr ())
   \<and> map_option (calls_since started_web \<circ> snd) (stop Sim None started_web) =
        Some [Stop (Container (Some ''web''))]"
proof -
  have w: "wf started_web"
    unfolding started_web_def by code_simp
  have l: "getRunningContainerList started_web = [0]"
    unfolding started_web_def by code_simp
  have r: "fst (stopAll_snapshot Sim False [0] started_web) = Inr ()"
    unfolding started_web_def by code_simp
  have c: "calls_since started_web (snd (stopAll_snapshot Sim False [0] started_web)) =
             [Stop (Container (Some ''web''))]"
    unfolding started_web_def by code_simp
  show ?thesis
    using stop_is_snapshot [OF w, of Sim None] w l r c by simp
qed

lemmas model_defs =
  startContainer_def startContainer_resume_def startContainer_record_def
  stopContainer_def stopContainer_issue_def stopContainer_resume_def
  await_listContainers_def await_createContainer_def await_start_def await_stop_def
  await_remove_def await_inspect_def getContainer_def push_def new_array_def
  exist_container_def interpolate_def getRunningContainerList_def
  getStoppingContainerList_def constructor_def resume_others_def calls_since_def

lemmas sim_defs =
  Sim_def sim_listContainers_def sim_createContainer_def sim_start_def sim_stop_def
  sim_remove_def sim_inspect_def sim_status_def sim_set_status_def

lemma one_in_flight_state:
  "one_in_flight =
     \<lparr>docker = \<lparr>sim_images = [[''nginx:latest'']],
                 sim_containers = [(''a'', ''running''), (''b'', ''running'')],
                 sim_refused = []\<rparr>,
      objects = two_specs, arrays = (\<lambda>_. [])(0 := [0]), fresh = 2,
      runningImageList = 0, stoppingImageList = 1,
      calls = [ListContainers, CreateContainer ''nginx:latest'' (Some ''a''),
               Start (Container (Some ''a'')),
               ListContainers, CreateContainer ''nginx:latest'' (Some ''b''),
               Start (Container (Some ''b''))]\<rparr>"
  unfolding one_in_flight_def
  by (simp add: model_defs sim_defs engine_with_image_def two_specs_def Let_def)

text \<open>
  C9, as the claim states it: a spec added to the running list while \<^verbatim>\<open>stop\<close> runs
  is not acted upon in that call. Object 0 is the only entry when \<^verbatim>\<open>stop\<close> begins.
  While the loop waits for the engine to stop its container, the pending
  \<^verbatim>\<open>startContainer\<close> of object 1 resumes and pushes object 1 on the array that the
  loop iterates: the loop goes on to stop the container of object 1 as well.
\<close>

theorem stop_acts_on_spec_added_meanwhile:
  "getRunningContainerList one_in_flight = [0]
   \<and> map_option fst (stop_loop Sim [[1]] (runningImageList one_in_flight) 0 False one_in_flight)
        = Some (Inr ())
   \<and> map_option (calls_since one_in_flight \<circ> snd)
        (stop_loop Sim [[1]] (runningImageList one_in_flight) 0 False one_in_flight)
        = Some [Stop (Container (Some ''a'')), Stop (Container (Some ''b''))]
   \<and> map_option (getStoppingContainerList \<circ> snd)
        (stop_loop Sim [[1]] (runningImageList one_in_flight) 0 False one_in_flight)
        = Some [0, 1]"
  unfolding one_in_flight_state
  by (simp add: stop_loop.simps model_defs sim_defs two_specs_def Let_def)

text \<open>
  The first failure ends the loop: with objects 0 and 1 recorded as running and an engine
  that refuses to stop the container of object 0, nothing is asked for object 1.
\<close>

lemma stop_ends_at_first_failure:
  "getRunningContainerList two_started = [0, 1]
   \<and> map_option fst (stop Sim None two_started) = Some (Inl StopFailed)
   \<and> map_option (calls_since two_started \<circ> snd) (stop Sim None two_started)
        = Some [Stop (Container (Some ''a''))]
   \<and> map_option (getRunningContainerList \<circ> snd) (stop Sim None two_started) = Some [0, 1]"
  unfolding two_started_def by code_simp

section \<open>pullImage\<close>

text \<open>
  C10. When \<^verbatim>\<open>pullImage\<close> is called without its second argument, no container is
  created or started. If the listing of the images has the tag, the call resolves after
  that listing alone; if it has not and the stream of the pull ends, the call resolves
  after the listing and the pull.
\<close>

theorem pullImage_flag_omitted:
  "count_calls is_create (calls_since s (snd (pullImage D img None s))) = 0
   \<and> count_calls is_start (calls_since s (snd (pullImage D img None s))) = 0
   \<and> (\<forall>images e. listImages D (docker s) = (Inr images, e)
         \<longrightarrow> image_exists images (name (objects s img))
         \<longrightarrow> pullImage D img None s
               = (Some (Inr ()), s\<lparr>docker := e, calls := calls s @ [ListImages]\<rparr>))
   \<and> (\<forall>images e e'. listImages D (docker s) = (Inr images, e)
         \<longrightarrow> \<not> image_exists images (name (objects s img))
         \<longrightarrow> pull D (name (objects s img)) e = (StreamEnd, e')
         \<longrightarrow> pullImage D img None s
               = (Some (Inr ()),
                  s\<lparr>docker := e', calls := calls s @ [ListImages, Pull (name (objects s img))]\<rparr>))"
  by (auto simp: pullImage_def await_listImages_def await_pull_def truthy_def calls_since_def
        split: prod.splits sum.splits pull_result.splits)

theorem pullImage_flag_omitted_witness:
  "fst (pullImage Sim 0 None (constructor engine_with_image nginx)) = Some (Inr ())
   \<and> calls (snd (pullImage Sim 0 None (constructor engine_with_image nginx))) = [ListImages]
   \<and> fst (pullImage Sim 0 None (constructor empty_engine nginx)) = Some (Inr ())
   \<and> calls (snd (pullImage Sim 0 None (constructor empty_engine nginx)))
        = [ListImages, Pull ''nginx:latest'']
   \<and> count_calls is_create
        (calls_since (constructor empty_engine nginx)
           (snd (pullImage Sim 0 None (constructor empty_engine nginx)))) = 0
   \<and> count_calls is_start
        (calls_since (constructor empty_engine nginx)
           (snd (pullImage Sim 0 None (constructor empty_engine nginx)))) = 0"
proof -
  let ?one = "[\<lparr>RepoTags = Some [''nginx:latest'']\<rparr>]"
  let ?have = "constructor engine_with_image nginx :: (sim, unit) state"
  let ?none = "constructor empty_engine nginx :: (sim, unit) state"
  let ?pulled = "\<lparr>sim_images = [[''nginx:latest'']], sim_containers = [], sim_refused = []\<rparr>"
  have l1: "listImages Sim (docker ?have) = (Inr ?one, engine_with_image)"
    by (simp add: Sim_def sim_listImages_def constructor_def engine_with_image_def)
  have x1: "image_exists ?one (name (objects ?have 0))"
    by (simp add: image_exists_def constructor_def nginx_def)
  have l2: "listImages Sim (docker ?none) = (Inr [], empty_engine)"
    by (simp add: Sim_def sim_listImages_def constructor_def empty_engine_def)
  have x2: "\<not> image_exists [] (name (objects ?none 0))"
    by (simp add: image_exists_def)
  have p2: "pull Sim (name (objects ?none 0)) empty_engine = (StreamEnd, ?pulled)"
    by (simp add: Sim_def sim_pull_def constructor_def nginx_def empty_engine_def)
  have n: "name (objects ?none 0) = ''nginx:latest''"
    by (simp add: constructor_def nginx_def)
  have c1: "calls ?have = []" and c2: "calls ?none = []"
    by (simp_all add: constructor_def)
  from pullImage_flag_omitted [of ?have Sim 0] l1 x1
  have a: "pullImage Sim 0 None ?have
             = (Some (Inr ()), ?have\<lparr>docker := engine_with_image, calls := calls ?have @ [ListImages]\<rparr>)"
    by blast
  from pullImage_flag_omitted [of ?none Sim 0] l2 x2 p2
  have b: "pullImage Sim 0 None ?none
             = (Some (Inr ()),
                ?none\<lparr>docker := ?pulled,
                       calls := calls ?none @ [ListImages, Pull (name (objects ?none 0))]\<rparr>)"
    by blast
  have z: "count_calls is_create (calls_since ?none (snd (pullImage Sim 0 None ?none))) = 0"
    "count_calls is_start (calls_since ?none (snd (pullImage Sim 0 None ?none))) = 0"
    using pullImage_flag_omitted [of ?none Sim 0] by blast+
  show ?thesis
    using a b z n c1 c2 by simp
qed

end
